theory Spec2Isabelle
  imports Complex_Main
begin

section \<open>Numbers and the value types of the rendering library\<close>

text \<open>
  The program is \<^verbatim>\<open>src/main.js\<close>, class \<^verbatim>\<open>AssemblyAnimation\<close>. JavaScript numbers
  are idealised as real numbers: \<^verbatim>\<open>+ - * /\<close> are the field operations, \<^verbatim>\<open>===\<close> on
  numbers is equality, \<^verbatim>\<open>Math.pow(2, y)\<close> is \<open>2 powr y\<close>. Rounding, NaN, signed zero
  and the infinities of IEEE doubles are outside the model; the one place where the
  program relies on an infinity (the empty \<^verbatim>\<open>Box3\<close>) is a constructor of its own.

  \<^verbatim>\<open>THREE.Vector3\<close>, \<^verbatim>\<open>THREE.Euler\<close> (always of order XYZ here: no call changes the
  default) and \<^verbatim>\<open>THREE.Quaternion\<close> are plain tuples of numbers.
\<close>

datatype vec3 = Vector3 (vx: real) (vy: real) (vz: real)

datatype euler = Euler (ex: real) (ey: real) (ez: real)

datatype quaternion = Quaternion (qx: real) (qy: real) (qz: real) (qw: real)

text \<open>The upper 3x3 block of a \<^verbatim>\<open>Matrix4\<close>, \<open>mij\<close> being row \<open>i\<close>, column \<open>j\<close>.\<close>

datatype mat3 = Mat3 (m11: real) (m12: real) (m13: real)
                     (m21: real) (m22: real) (m23: real)
                     (m31: real) (m32: real) (m33: real)

subsection \<open>Library functions the program calls\<close>

text \<open>
  The functions below belong to three.js, which the program imports; they are
  transcribed from the library's \<^verbatim>\<open>Vector3\<close>, \<^verbatim>\<open>Quaternion\<close>, \<^verbatim>\<open>Matrix4\<close>,
  \<^verbatim>\<open>Euler\<close> and \<^verbatim>\<open>MathUtils\<close> sources, for the XYZ order.
\<close>

text \<open>\<^verbatim>\<open>Vector3.lerpVectors(v1, v2, alpha)\<close>: \<^verbatim>\<open>this.x = v1.x + (v2.x - v1.x) * alpha\<close>, and so on.\<close>

definition lerpVectors :: "vec3 \<Rightarrow> vec3 \<Rightarrow> real \<Rightarrow> vec3" where
  "lerpVectors v1 v2 alpha =
     Vector3 (vx v1 + (vx v2 - vx v1) * alpha)
             (vy v1 + (vy v2 - vy v1) * alpha)
             (vz v1 + (vz v2 - vz v1) * alpha)"

text \<open>\<^verbatim>\<open>Vector3.sub\<close>, \<^verbatim>\<open>Vector3.distanceTo\<close>, \<^verbatim>\<open>Vector3.multiplyScalar\<close>.\<close>

definition subv :: "vec3 \<Rightarrow> vec3 \<Rightarrow> vec3" where
  "subv a b = Vector3 (vx a - vx b) (vy a - vy b) (vz a - vz b)"

definition addv :: "vec3 \<Rightarrow> vec3 \<Rightarrow> vec3" where
  "addv a b = Vector3 (vx a + vx b) (vy a + vy b) (vz a + vz b)"

definition multiplyScalar :: "vec3 \<Rightarrow> real \<Rightarrow> vec3" where
  "multiplyScalar a k = Vector3 (vx a * k) (vy a * k) (vz a * k)"

definition distanceTo :: "vec3 \<Rightarrow> vec3 \<Rightarrow> real" where
  "distanceTo a b =
     sqrt ((vx a - vx b) * (vx a - vx b) + (vy a - vy b) * (vy a - vy b)
           + (vz a - vz b) * (vz a - vz b))"

text \<open>\<^verbatim>\<open>Vector3.normalize()\<close> is \<^verbatim>\<open>divideScalar(this.length() || 1)\<close>.\<close>

definition normalizev :: "vec3 \<Rightarrow> vec3" where
  "normalizev a =
     (let l = sqrt (vx a * vx a + vy a * vy a + vz a * vz a);
          d = (if l = 0 then 1 else l)
      in Vector3 (vx a / d) (vy a / d) (vz a / d))"

text \<open>\<^verbatim>\<open>Math.atan2(y, x)\<close> on real arguments, and \<^verbatim>\<open>MathUtils.clamp\<close>.\<close>

definition atan2 :: "real \<Rightarrow> real \<Rightarrow> real" where
  "atan2 y x =
     (if 0 < x then arctan (y / x)
      else if x < 0 then (if 0 \<le> y then arctan (y / x) + pi else arctan (y / x) - pi)
      else if 0 < y then pi / 2
      else if y < 0 then - (pi / 2)
      else 0)"

definition clamp :: "real \<Rightarrow> real \<Rightarrow> real \<Rightarrow> real" where
  "clamp v lo hi = max lo (min hi v)"

text \<open>\<^verbatim>\<open>Quaternion.setFromEuler\<close>, case \<^verbatim>\<open>'XYZ'\<close>.\<close>

definition setFromEuler :: "euler \<Rightarrow> quaternion" where
  "setFromEuler e =
     (let c1 = cos (ex e / 2); c2 = cos (ey e / 2); c3 = cos (ez e / 2);
          s1 = sin (ex e / 2); s2 = sin (ey e / 2); s3 = sin (ez e / 2)
      in Quaternion (s1 * c2 * c3 + c1 * s2 * s3)
                    (c1 * s2 * c3 - s1 * c2 * s3)
                    (c1 * c2 * s3 + s1 * s2 * c3)
                    (c1 * c2 * c3 - s1 * s2 * s3))"

text \<open>\<^verbatim>\<open>Matrix4.makeRotationFromQuaternion\<close> (\<^verbatim>\<open>compose\<close> with zero position and unit scale).\<close>

definition makeRotationFromQuaternion :: "quaternion \<Rightarrow> mat3" where
  "makeRotationFromQuaternion q =
     (let x = qx q; y = qy q; z = qz q; w = qw q;
          x2 = x + x; y2 = y + y; z2 = z + z;
          xx = x * x2; xy = x * y2; xz = x * z2;
          yy = y * y2; yz = y * z2; zz = z * z2;
          wx = w * x2; wy = w * y2; wz = w * z2
      in Mat3 (1 - (yy + zz)) (xy - wz) (xz + wy)
              (xy + wz) (1 - (xx + zz)) (yz - wx)
              (xz - wy) (yz + wx) (1 - (xx + yy)))"

text \<open>\<^verbatim>\<open>Euler.setFromRotationMatrix\<close>, case \<^verbatim>\<open>'XYZ'\<close>.\<close>

definition setFromRotationMatrix :: "mat3 \<Rightarrow> euler" where
  "setFromRotationMatrix m =
     (let y = arcsin (clamp (m13 m) (-1) 1)
      in if \<bar>m13 m\<bar> < 0.9999999
         then Euler (atan2 (- m23 m) (m33 m)) y (atan2 (- m12 m) (m11 m))
         else Euler (atan2 (m32 m) (m22 m)) y 0)"

text \<open>\<^verbatim>\<open>Euler.setFromQuaternion(q)\<close>.\<close>

definition setFromQuaternion :: "quaternion \<Rightarrow> euler" where
  "setFromQuaternion q = setFromRotationMatrix (makeRotationFromQuaternion q)"

text \<open>\<^verbatim>\<open>Quaternion.normalize()\<close>.\<close>

definition normalizeq :: "quaternion \<Rightarrow> quaternion" where
  "normalizeq q =
     (let l = sqrt (qx q * qx q + qy q * qy q + qz q * qz q + qw q * qw q)
      in if l = 0 then Quaternion 0 0 0 1
         else Quaternion (qx q * (1 / l)) (qy q * (1 / l)) (qz q * (1 / l)) (qw q * (1 / l)))"

text \<open>
  \<^verbatim>\<open>new Quaternion().slerpQuaternions(qa, qb, t)\<close>, which is \<^verbatim>\<open>copy(qa).slerp(qb, t)\<close>:
  the two early returns at \<^verbatim>\<open>t === 0\<close> and \<^verbatim>\<open>t === 1\<close>, the flip to the shorter arc,
  the linear fallback for nearly parallel quaternions (\<^verbatim>\<open>Number.EPSILON\<close> is \<open>2 powr -52\<close>)
  and the spherical formula.
\<close>

definition slerpQuaternions :: "quaternion \<Rightarrow> quaternion \<Rightarrow> real \<Rightarrow> quaternion" where
  "slerpQuaternions qa qb t =
     (if t = 0 then qa
      else if t = 1 then qb
      else
        let x = qx qa; y = qy qa; z = qz qa; w = qw qa;
            c0 = w * qw qb + x * qx qb + y * qy qb + z * qz qb;
            b = (if c0 < 0 then Quaternion (- qx qb) (- qy qb) (- qz qb) (- qw qb) else qb);
            cosHalfTheta = (if c0 < 0 then - c0 else c0)
        in if cosHalfTheta \<ge> 1 then qa
           else
             let sqrSinHalfTheta = 1 - cosHalfTheta * cosHalfTheta
             in if sqrSinHalfTheta \<le> 1 / 2 ^ 52
                then normalizeq (Quaternion ((1 - t) * x + t * qx b) ((1 - t) * y + t * qy b)
                                            ((1 - t) * z + t * qz b) ((1 - t) * w + t * qw b))
                else
                  let sinHalfTheta = sqrt sqrSinHalfTheta;
                      halfTheta = atan2 sinHalfTheta cosHalfTheta;
                      ratioA = sin ((1 - t) * halfTheta) / sinHalfTheta;
                      ratioB = sin (t * halfTheta) / sinHalfTheta
                  in Quaternion (x * ratioA + qx b * ratioB) (y * ratioA + qy b * ratioB)
                                (z * ratioA + qz b * ratioB) (w * ratioA + qw b * ratioB))"

section \<open>The choreography scheduler\<close>

text \<open>
  Lines 531-540 of \<^verbatim>\<open>updateAssemblyProgress\<close>: the slot of the component at \<open>index\<close>
  among \<open>totalSlots\<close>, and its local progress.
\<close>

definition slotStart :: "nat \<Rightarrow> nat \<Rightarrow> real" where
  "slotStart index totalSlots = real index / real totalSlots"

definition slotEnd :: "nat \<Rightarrow> nat \<Rightarrow> real" where
  "slotEnd index totalSlots = (real index + 1) / real totalSlots"

definition componentProgress :: "real \<Rightarrow> nat \<Rightarrow> nat \<Rightarrow> real" where
  "componentProgress effectiveProgress index totalSlots =
     (if effectiveProgress \<ge> slotEnd index totalSlots then 1
      else if effectiveProgress \<ge> slotStart index totalSlots
      then (effectiveProgress - slotStart index totalSlots)
             / (slotEnd index totalSlots - slotStart index totalSlots)
      else 0)"

text \<open>Lines 543-545: the exponential ease-out with its two exact boundary cases.\<close>

definition eased :: "real \<Rightarrow> real" where
  "eased p = (if p = 0 then 0 else if p = 1 then 1 else 1 - 2 powr (- 10 * p))"


section \<open>Program state\<close>

text \<open>
  Scene objects (\<^verbatim>\<open>THREE.Group\<close>, \<^verbatim>\<open>THREE.Mesh\<close>) are compared by identity: the six
  \<^verbatim>\<open>Map\<close>s of the class are keyed by the object itself. An object is a number here,
  and \<open>object3d\<close> holds each object's own mutable \<^verbatim>\<open>position\<close>, \<^verbatim>\<open>rotation\<close> and
  \<^verbatim>\<open>scale\<close>: the live transform the renderer reads.
\<close>

type_synonym obj = nat

record transform =
  position :: vec3
  rotation :: euler
  scale :: vec3

text \<open>
  \<^verbatim>\<open>THREE.Box3\<close>. The library stores \<open>min = +\<infinity>\<close>, \<open>max = -\<infinity>\<close> in an empty box
  (\<^verbatim>\<open>makeEmpty\<close>); that state is the constructor \<open>EmptyBox\<close>, every other box has real
  corners.
\<close>

datatype box3 = EmptyBox | Box (bmin: vec3) (bmax: vec3)

record camera =
  cam_position :: vec3
  cam_left :: real
  cam_right :: real
  cam_top :: real
  cam_bottom :: real
  cam_zoom :: real

record state =
  components :: "obj list"
  object3d :: "obj \<Rightarrow> transform"
  originalPositions :: "obj \<rightharpoonup> vec3"
  originalRotations :: "obj \<rightharpoonup> euler"
  originalScales :: "obj \<rightharpoonup> vec3"
  scatteredPositions :: "obj \<rightharpoonup> vec3"
  scatteredRotations :: "obj \<rightharpoonup> euler"
  scatteredScales :: "obj \<rightharpoonup> vec3"
  modelBounds :: box3
  camera :: camera
  controlsTarget :: vec3
  isAnimating :: bool
  startTime :: real
  animationDuration :: real
  nextObject :: obj
  randomCalls :: nat

text \<open>
  \<open>nextObject\<close> is the identity the next \<^verbatim>\<open>new THREE.Group()\<close> receives, \<open>randomCalls\<close>
  counts the calls of \<^verbatim>\<open>Math.random()\<close> so far; the values it returns are a
  parameter \<open>rand\<close> of the functions that call it. \<open>isAnimating\<close> is \<open>False\<close> while the
  field is still undefined.
\<close>

text \<open>What the page gives the program: the container element (if any) and the window.\<close>

record env =
  container :: "(real \<times> real) option"
  innerWidth :: real
  innerHeight :: real

datatype error = TypeError

subsection \<open>Box3 operations\<close>

fun isEmpty :: "box3 \<Rightarrow> bool" where
  "isEmpty EmptyBox = True"
| "isEmpty (Box lo hi) = (vx hi < vx lo \<or> vy hi < vy lo \<or> vz hi < vz lo)"

definition getCenter :: "box3 \<Rightarrow> vec3" where
  "getCenter b =
     (if isEmpty b then Vector3 0 0 0 else multiplyScalar (addv (bmin b) (bmax b)) 0.5)"

definition getSize :: "box3 \<Rightarrow> vec3" where
  "getSize b = (if isEmpty b then Vector3 0 0 0 else subv (bmax b) (bmin b))"

text \<open>\<^verbatim>\<open>Box3.union\<close>: componentwise \<^verbatim>\<open>min.min(box.min)\<close>, \<^verbatim>\<open>max.max(box.max)\<close>.\<close>

fun unionBox :: "box3 \<Rightarrow> box3 \<Rightarrow> box3" where
  "unionBox EmptyBox b = b"
| "unionBox (Box lo hi) EmptyBox = Box lo hi"
| "unionBox (Box lo hi) (Box lo' hi') =
     Box (Vector3 (min (vx lo) (vx lo')) (min (vy lo) (vy lo')) (min (vz lo) (vz lo')))
         (Vector3 (max (vx hi) (vx hi')) (max (vy hi) (vy hi')) (max (vz hi) (vz hi')))"

fun translateBox :: "box3 \<Rightarrow> vec3 \<Rightarrow> box3" where
  "translateBox EmptyBox offset = EmptyBox"
| "translateBox (Box lo hi) offset = Box (addv lo offset) (addv hi offset)"

text \<open>
  The two lines \<^verbatim>\<open>size = modelBounds.getSize(...)\<close>,
  \<^verbatim>\<open>Math.max(size.x, size.y, size.z)\<close> that \<^verbatim>\<open>processModel\<close>, \<^verbatim>\<open>frameModel\<close> and
  \<^verbatim>\<open>scatterComponents\<close> share.
\<close>

definition maxDimension :: "box3 \<Rightarrow> real" where
  "maxDimension b = (let size = getSize b in max (vx size) (max (vy size) (vz size)))"

text \<open>
  \<^verbatim>\<open>box.min.distanceTo(box.max)\<close>; \<open>None\<close> is the \<^verbatim>\<open>Infinity\<close> that an empty box
  yields, and \<open>ltNum\<close> is \<^verbatim>\<open><\<close> with that value on the left.
\<close>

fun diagonal :: "box3 \<Rightarrow> real option" where
  "diagonal EmptyBox = None"
| "diagonal (Box lo hi) = Some (distanceTo lo hi)"

fun ltNum :: "real option \<Rightarrow> real \<Rightarrow> bool" where
  "ltNum None m = False"
| "ltNum (Some d) m = (d < m)"

subsection \<open>updateAssemblyProgress\<close>

text \<open>\<^verbatim>\<open>map.get(key) || fallback\<close>: the stored objects are never falsy.\<close>

fun orElse :: "'a option \<Rightarrow> 'a \<Rightarrow> 'a" where
  "orElse None d = d"
| "orElse (Some v) d = v"

text \<open>\<^verbatim>\<open>array.forEach((element, index) => ...)\<close> over a state.\<close>

fun forEachIndexed :: "(nat \<Rightarrow> 'a \<Rightarrow> 's \<Rightarrow> 's) \<Rightarrow> nat \<Rightarrow> 'a list \<Rightarrow> 's \<Rightarrow> 's" where
  "forEachIndexed f index [] s = s"
| "forEachIndexed f index (x # xs) s = forEachIndexed f (Suc index) xs (f index x s)"

text \<open>
  Lines 547-565: the six lookups with their fallbacks and the three interpolations,
  for a given eased value.
\<close>

definition interpolated :: "state \<Rightarrow> obj \<Rightarrow> real \<Rightarrow> transform" where
  "interpolated s component e =
     (let startPos = orElse (scatteredPositions s component) (Vector3 0 0 0);
          targetPos = orElse (originalPositions s component) (Vector3 0 0 0);
          startRot = orElse (scatteredRotations s component) (Euler 0 0 0);
          targetRot = orElse (originalRotations s component) (Euler 0 0 0);
          startScale = orElse (scatteredScales s component) (Vector3 0.01 0.01 0.01);
          targetScale = orElse (originalScales s component) (Vector3 1 1 1);
          startQuat = setFromEuler startRot;
          endQuat = setFromEuler targetRot;
          currentQuat = slerpQuaternions startQuat endQuat e
      in \<lparr> position = lerpVectors startPos targetPos e,
           rotation = setFromQuaternion currentQuat,
           scale = lerpVectors startScale targetScale e \<rparr>)"

text \<open>The body of the \<^verbatim>\<open>forEach\<close> callback, lines 529-566.\<close>

definition updateComponent :: "real \<Rightarrow> nat \<Rightarrow> nat \<Rightarrow> obj \<Rightarrow> state \<Rightarrow> state" where
  "updateComponent effectiveProgress totalSlots index component s =
     s\<lparr> object3d := (object3d s)
          (component := interpolated s component
                          (eased (componentProgress effectiveProgress index totalSlots))) \<rparr>"

definition updateAssemblyProgress :: "real \<Rightarrow> state \<Rightarrow> state" where
  "updateAssemblyProgress scrollProgress s =
     (let totalSlots = length (components s);
          effectiveProgress = scrollProgress
      in forEachIndexed (updateComponent effectiveProgress totalSlots) 0 (components s) s)"

subsection \<open>frameModel\<close>

definition aspectOf :: "env \<Rightarrow> real" where
  "aspectOf v =
     (case container v of
        Some (clientWidth, clientHeight) \<Rightarrow> clientWidth / clientHeight
      | None \<Rightarrow> innerWidth v / innerHeight v)"

text \<open>
  The division above is the one of the reals only when the height is not 0 (JavaScript
  would yield an infinity or NaN there).
\<close>

definition aspectDefined :: "env \<Rightarrow> bool" where
  "aspectDefined v =
     (case container v of
        Some (clientWidth, clientHeight) \<Rightarrow> clientHeight \<noteq> 0
      | None \<Rightarrow> innerHeight v \<noteq> 0)"

text \<open>
  Lines 419-454. \<^verbatim>\<open>camera.lookAt\<close>, \<^verbatim>\<open>updateProjectionMatrix\<close> and \<^verbatim>\<open>controls.update\<close>
  recompute the camera's orientation and matrices from the fields written here; those
  derived fields are not part of the state.
\<close>

definition frameModel :: "env \<Rightarrow> state \<Rightarrow> state" where
  "frameModel v s =
     (if isEmpty (modelBounds s) then s
      else
        let center = getCenter (modelBounds s);
            maxDim = maxDimension (modelBounds s);
            distance = maxDim * 2;
            padding = 1.5;
            frustumSize = (maxDim * padding) / 2;
            aspect = aspectOf v
        in s\<lparr> controlsTarget := center,
              camera := (camera s)
                \<lparr> cam_position :=
                    Vector3 (vx center - distance) (vy center + distance) (vz center + distance),
                  cam_left := - frustumSize * aspect / 2,
                  cam_right := frustumSize * aspect / 2,
                  cam_top := frustumSize / 2,
                  cam_bottom := - frustumSize / 2,
                  cam_zoom := 1 \<rparr> \<rparr>)"


subsection \<open>scatterComponents\<close>

text \<open>
  The body of the \<^verbatim>\<open>forEach\<close> callback, lines 462-518. At index 0 the three
  \<^verbatim>\<open>get(component).clone()\<close> calls throw a TypeError when a record is missing.
  \<^verbatim>\<open>Math.random()\<close> is \<open>rand k\<close> at its \<open>k\<close>-th call, in the order the calls are
  written.
\<close>

definition scatterComponent ::
  "(nat \<Rightarrow> real) \<Rightarrow> string \<Rightarrow> real \<Rightarrow> nat \<Rightarrow> nat \<Rightarrow> obj \<Rightarrow> state \<Rightarrow> error + state" where
  "scatterComponent rand pattern scatterRadius count index component s =
     (if index = 0 then
        (case originalPositions s component of
           None \<Rightarrow> Inl TypeError
         | Some p \<Rightarrow>
        (case originalRotations s component of
           None \<Rightarrow> Inl TypeError
         | Some r \<Rightarrow>
        (case originalScales s component of
           None \<Rightarrow> Inl TypeError
         | Some sc \<Rightarrow>
             Inr (s\<lparr> scatteredPositions := (scatteredPositions s)(component \<mapsto> p),
                     scatteredRotations := (scatteredRotations s)(component \<mapsto> r),
                     scatteredScales := (scatteredScales s)(component \<mapsto> sc) \<rparr>))))
      else
        let t = real index / real count;
            k = randomCalls s;
            (x, y, z, k') =
              (if pattern = ''spiral'' then
                 let angle = t * pi * 4;
                     radius = scatterRadius * (0.3 + t * 0.7)
                 in (cos angle * radius, (t - 0.5) * scatterRadius * 1.5, sin angle * radius, k)
               else if pattern = ''sphere'' then
                 let phi = arccos (2 * t - 1);
                     theta = pi * 2 * real index * 0.618
                 in (scatterRadius * sin phi * cos theta,
                     scatterRadius * sin phi * sin theta,
                     scatterRadius * cos phi, k)
               else
                 let dir = normalizev (Vector3 (rand k - 0.5) (rand (k + 1) - 0.5)
                                               (rand (k + 2) - 0.5));
                     dist = scatterRadius * (0.5 + rand (k + 3) * 0.5)
                 in (vx dir * dist, vy dir * dist, vz dir * dist, k + 4));
            scatterPos = Vector3 x y z;
            scatterRot = Euler (rand k' * pi * 2) (rand (k' + 1) * pi * 2)
                               (rand (k' + 2) * pi * 2);
            scatterScale = Vector3 0.01 0.01 0.01
        in Inr (s\<lparr> object3d := (object3d s)
                       (component := \<lparr> position = scatterPos, rotation = scatterRot,
                                       scale = scatterScale \<rparr>),
                   scatteredPositions := (scatteredPositions s)(component \<mapsto> scatterPos),
                   scatteredRotations := (scatteredRotations s)(component \<mapsto> scatterRot),
                   scatteredScales := (scatteredScales s)(component \<mapsto> scatterScale),
                   randomCalls := k' + 3 \<rparr>))"

text \<open>\<^verbatim>\<open>forEach\<close> with a callback that may throw: the first exception ends the loop.\<close>

fun forEachThrowing ::
  "(nat \<Rightarrow> 'a \<Rightarrow> 's \<Rightarrow> error + 's) \<Rightarrow> nat \<Rightarrow> 'a list \<Rightarrow> 's \<Rightarrow> error + 's" where
  "forEachThrowing f index [] s = Inr s"
| "forEachThrowing f index (x # xs) s =
     (case f index x s of
        Inl e \<Rightarrow> Inl e
      | Inr s' \<Rightarrow> forEachThrowing f (Suc index) xs s')"

definition scatterComponents :: "(nat \<Rightarrow> real) \<Rightarrow> string \<Rightarrow> state \<Rightarrow> error + state" where
  "scatterComponents rand pattern s =
     (let maxDim = maxDimension (modelBounds s);
          scatterRadius = maxDim * 10
      in forEachThrowing
           (scatterComponent rand pattern scatterRadius (length (components s)))
           0 (components s) s)"

subsection \<open>startAnimation and processModel\<close>

text \<open>Lines 585-589; \<open>now\<close> is the value of \<^verbatim>\<open>performance.now()\<close>.\<close>

definition startAnimation :: "real \<Rightarrow> state \<Rightarrow> state" where
  "startAnimation now s = s\<lparr> isAnimating := True, startTime := now, animationDuration := 4000 \<rparr>"

text \<open>
  A node of the loaded scene graph, as \<^verbatim>\<open>processModel\<close> reads it: whether it is a
  mesh, the box \<^verbatim>\<open>geometry.boundingBox.clone().applyMatrix4(matrixWorld)\<close>, and the
  results of \<^verbatim>\<open>getWorldPosition\<close>, \<^verbatim>\<open>getWorldQuaternion\<close>, \<^verbatim>\<open>getWorldScale\<close>. The
  model is the list of its nodes in the order \<^verbatim>\<open>traverse\<close> visits them.
\<close>

record node =
  isMesh :: bool
  worldBox :: box3
  worldPosition :: vec3
  worldQuaternion :: quaternion
  worldScale :: vec3

text \<open>Lines 206-213: every mesh is a candidate until \<^verbatim>\<open>MAX_COMPONENTS\<close> are collected.\<close>

definition MAX_COMPONENTS :: nat where
  "MAX_COMPONENTS = 500"

definition candidates :: "node list \<Rightarrow> node list" where
  "candidates model = take MAX_COMPONENTS (filter isMesh model)"

text \<open>Lines 219-229: the union of the candidates' boxes.\<close>

definition boundsOf :: "node list \<Rightarrow> box3" where
  "boundsOf cs = foldl (\<lambda>b mesh. unionBox b (unionBox EmptyBox (worldBox mesh))) EmptyBox cs"

text \<open>
  Lines 236-332 for one candidate: the size test, then the new group with the node's
  world transform relative to the model centre, recorded as its original transform.
\<close>

definition addComponent :: "vec3 \<Rightarrow> real \<Rightarrow> node \<Rightarrow> state \<Rightarrow> state" where
  "addComponent center minComponentSize mesh s =
     (let componentBox = unionBox EmptyBox (worldBox mesh);
          componentSize = diagonal componentBox
      in if ltNum componentSize minComponentSize then s
         else
           let group = nextObject s;
               worldPos = subv (worldPosition mesh) center;
               worldRot = setFromQuaternion (worldQuaternion mesh)
           in s\<lparr> nextObject := Suc group,
                 object3d := (object3d s)
                   (group := \<lparr> position = worldPos, rotation = worldRot,
                               scale = worldScale mesh \<rparr>),
                 originalPositions := (originalPositions s)(group \<mapsto> worldPos),
                 originalRotations := (originalRotations s)(group \<mapsto> worldRot),
                 originalScales := (originalScales s)(group \<mapsto> worldScale mesh),
                 components := components s @ [group] \<rparr>)"

text \<open>
  Lines 197-365. \<open>objectSize a\<close> is the diagonal of \<^verbatim>\<open>new THREE.Box3().setFromObject(a)\<close>,
  which the library computes from the group's geometry; the comparator
  \<^verbatim>\<open>sizeB - sizeA\<close> of the (stable) sort orders by it, largest first.
\<close>

definition processModel ::
  "env \<Rightarrow> (nat \<Rightarrow> real) \<Rightarrow> real \<Rightarrow> (obj \<Rightarrow> real) \<Rightarrow> node list \<Rightarrow> state \<Rightarrow> error + state" where
  "processModel v rand now objectSize model s =
     (let cs = candidates model;
          s1 = s\<lparr> modelBounds := boundsOf cs \<rparr>;
          center = getCenter (modelBounds s1);
          maxDim = maxDimension (modelBounds s1);
          minComponentSize = maxDim * 0.02;
          s2 = foldl (\<lambda>st mesh. addComponent center minComponentSize mesh st) s1 cs;
          s3 = s2\<lparr> modelBounds := translateBox (modelBounds s2) (multiplyScalar center (-1)) \<rparr>;
          s4 = s3\<lparr> components := sort_key (\<lambda>a. - objectSize a) (components s3) \<rparr>;
          s5 = frameModel v s4
      in case scatterComponents rand ''spiral'' s5 of
           Inl e \<Rightarrow> Inl e
         | Inr s6 \<Rightarrow> Inr (startAnimation now s6))"

subsection \<open>The constructor and init\<close>

text \<open>
  Lines 8-65: the state when the constructor returns, for a container of the given
  client width and (non-zero) height. The camera's frustum is the one \<^verbatim>\<open>init\<close> sets (size 40),
  the controls look at the origin, no model is loaded yet.
\<close>

definition initialState :: "real \<Rightarrow> real \<Rightarrow> state" where
  "initialState width height =
     (let aspect = width / height; frustumSize = 40
      in \<lparr> components = [],
           object3d = (\<lambda>c. \<lparr> position = Vector3 0 0 0, rotation = Euler 0 0 0,
                               scale = Vector3 1 1 1 \<rparr>),
           originalPositions = Map.empty,
           originalRotations = Map.empty,
           originalScales = Map.empty,
           scatteredPositions = Map.empty,
           scatteredRotations = Map.empty,
           scatteredScales = Map.empty,
           modelBounds = EmptyBox,
           camera = \<lparr> cam_position = Vector3 100 100 100,
                      cam_left = - frustumSize * aspect / 2,
                      cam_right = frustumSize * aspect / 2,
                      cam_top = frustumSize / 2,
                      cam_bottom = - frustumSize / 2,
                      cam_zoom = 1 \<rparr>,
           controlsTarget = Vector3 0 0 0,
           isAnimating = False,
           startTime = 0,
           animationDuration = 0,
           nextObject = 0,
           randomCalls = 0 \<rparr>)"

section \<open>Auxiliary definitions\<close>

text \<open>
  The live transforms after the loop of \<^verbatim>\<open>updateAssemblyProgress\<close> has run over the
  components \<open>cs\<close>, the first of them at index \<open>k\<close>; \<open>pose c e\<close> is the transform the
  callback writes to \<open>c\<close> for the eased value \<open>e\<close>.
\<close>

fun liveAfter ::
  "(obj \<Rightarrow> real \<Rightarrow> transform) \<Rightarrow> real \<Rightarrow> nat \<Rightarrow> nat \<Rightarrow> obj list
     \<Rightarrow> (obj \<Rightarrow> transform) \<Rightarrow> obj \<Rightarrow> transform" where
  "liveAfter pose p n k [] L = L"
| "liveAfter pose p n k (c # cs) L =
     liveAfter pose p n (Suc k) cs (L(c := pose c (eased (componentProgress p k n))))"

text \<open>
  A state with four components as \<^verbatim>\<open>processModel\<close> leaves them: every record
  present, component 0 kept in place, the others scattered with scale 0.01 and the
  rotation that three calls of \<^verbatim>\<open>Math.random()\<close> returning 0.5 give.
\<close>

definition demoState :: state where
  "demoState =
     \<lparr> components = [0, 1, 2, 3],
       object3d = (\<lambda>c. \<lparr> position = Vector3 0 0 0, rotation = Euler 0 0 0,
                           scale = Vector3 1 1 1 \<rparr>),
       originalPositions = (\<lambda>c. if c < 4 then Some (Vector3 (real c) 0 0) else None),
       originalRotations = (\<lambda>c. if c < 4 then Some (Euler 0 0 0) else None),
       originalScales = (\<lambda>c. if c < 4 then Some (Vector3 1 1 1) else None),
       scatteredPositions =
         (\<lambda>c. if c = 0 then Some (Vector3 0 0 0)
              else if c < 4 then Some (Vector3 (10 * real c) 5 0) else None),
       scatteredRotations =
         (\<lambda>c. if c = 0 then Some (Euler 0 0 0)
              else if c < 4 then Some (Euler pi pi pi) else None),
       scatteredScales =
         (\<lambda>c. if c = 0 then Some (Vector3 1 1 1)
              else if c < 4 then Some (Vector3 0.01 0.01 0.01) else None),
       modelBounds = Box (Vector3 (-2) (-1) (-1)) (Vector3 2 1 1),
       camera = \<lparr> cam_position = Vector3 100 100 100, cam_left = - 30, cam_right = 30,
                  cam_top = 20, cam_bottom = - 20, cam_zoom = 1 \<rparr>,
       controlsTarget = Vector3 0 0 0,
       isAnimating = False,
       startTime = 0,
       animationDuration = 0,
       nextObject = 4,
       randomCalls = 0 \<rparr>"

text \<open>
  The same state with a fifth component, object 4, for which no transform was ever
  recorded.
\<close>

definition orphanState :: state where
  "orphanState = demoState\<lparr> components := [0, 1, 2, 3, 4], nextObject := 5 \<rparr>"

text \<open>A page whose container is 800 by 600.\<close>

definition demoEnv :: env where
  "demoEnv = \<lparr> container = Some (800, 600), innerWidth = 1024, innerHeight = 768 \<rparr>"

text \<open>
  Three meshes for models to load: a unit cube at \<open>x\<close>, a flat box whose diagonal is
  exactly 5, and a rod of length 250.
\<close>

definition tinyMesh :: "real \<Rightarrow> node" where
  "tinyMesh x =
     \<lparr> isMesh = True,
       worldBox = Box (Vector3 x 0 0) (Vector3 (x + 1) 1 1),
       worldPosition = Vector3 x 0 0,
       worldQuaternion = Quaternion 0 0 0 1,
       worldScale = Vector3 1 1 1 \<rparr>"

definition farModel :: "node list" where
  "farModel = [tinyMesh 0, tinyMesh 1000]"



text \<open>
  \<open>untouched c s s'\<close>: nothing of the object \<open>c\<close> differs between \<open>s\<close> and \<open>s'\<close>.
  \<open>recorded s\<close>: every component has its original transform recorded, which is what
  \<^verbatim>\<open>scatterComponents\<close> needs at index 0.
\<close>

definition untouched :: "obj \<Rightarrow> state \<Rightarrow> state \<Rightarrow> bool" where
  "untouched c s s' \<longleftrightarrow>
     object3d s' c = object3d s c \<and>
     scatteredPositions s' c = scatteredPositions s c \<and>
     scatteredRotations s' c = scatteredRotations s c \<and>
     scatteredScales s' c = scatteredScales s c \<and>
     originalPositions s' c = originalPositions s c \<and>
     originalRotations s' c = originalRotations s c \<and>
     originalScales s' c = originalScales s c"


section \<open>Properties of the slots and of the loop\<close>

subsection \<open>Slots and local progress\<close>



lemma slotStart_nonneg: "0 \<le> slotStart i n"
  by (simp add: slotStart_def)

lemma slotEnd_le_one: "i < n \<Longrightarrow> slotEnd i n \<le> 1"
  by (simp add: slotEnd_def)





subsection \<open>The loop of updateAssemblyProgress\<close>

lemma interpolated_object3d_update: "interpolated (s\<lparr>object3d := f\<rparr>) = interpolated s"
  by (rule ext)+ (simp add: interpolated_def)

lemma forEach_update:
  "forEachIndexed (updateComponent p n) k xs s =
     s\<lparr>object3d := liveAfter (interpolated s) p n k xs (object3d s)\<rparr>"
proof (induction xs arbitrary: k s)
  case Nil
  show ?case by simp
next
  case (Cons x xs)
  let ?s' = "updateComponent p n k x s"
  have "forEachIndexed (updateComponent p n) k (x # xs) s
        = forEachIndexed (updateComponent p n) (Suc k) xs ?s'"
    by simp
  also have "\<dots> = ?s'\<lparr>object3d := liveAfter (interpolated ?s') p n (Suc k) xs (object3d ?s')\<rparr>"
    by (rule Cons.IH)
  also have "\<dots> = s\<lparr>object3d := liveAfter (interpolated s) p n k (x # xs) (object3d s)\<rparr>"
    by (simp add: updateComponent_def interpolated_object3d_update)
  finally show ?case .
qed

lemma updateAssemblyProgress_eq:
  "updateAssemblyProgress p s =
     s\<lparr>object3d := liveAfter (interpolated s) p (length (components s)) 0 (components s)
                     (object3d s)\<rparr>"
  by (simp add: updateAssemblyProgress_def forEach_update)

lemma liveAfter_notin: "c \<notin> set xs \<Longrightarrow> liveAfter pose p n k xs L c = L c"
  by (induction xs arbitrary: k L) auto

lemma liveAfter_nth:
  "distinct xs \<Longrightarrow> i < length xs \<Longrightarrow>
     liveAfter pose p n k xs L (xs ! i) = pose (xs ! i) (eased (componentProgress p (k + i) n))"
proof (induction xs arbitrary: k L i)
  case Nil
  then show ?case by simp
next
  case (Cons x xs)
  show ?case
  proof (cases i)
    case 0
    with Cons.prems show ?thesis by (simp add: liveAfter_notin)
  next
    case (Suc j)
    with Cons.prems Cons.IH[of j "Suc k"] show ?thesis by simp
  qed
qed

lemma liveAfter_cong:
  "(\<And>c. c \<notin> set xs \<Longrightarrow> L1 c = L2 c) \<Longrightarrow> liveAfter pose p n k xs L1 = liveAfter pose p n k xs L2"
proof (induction xs arbitrary: k L1 L2)
  case Nil
  then show ?case by (simp add: fun_eq_iff)
next
  case (Cons x xs)
  show ?case
    by (simp, rule Cons.IH) (use Cons.prems in auto)
qed

lemma liveAfter_const:
  "c \<in> set xs \<Longrightarrow> (\<And>i. i < length xs \<Longrightarrow> eased (componentProgress p (k + i) n) = e) \<Longrightarrow>
     liveAfter pose p n k xs L c = pose c e"
proof (induction xs arbitrary: k L)
  case Nil
  then show ?case by simp
next
  case (Cons x xs)
  have tl: "\<And>i. i < length xs \<Longrightarrow> eased (componentProgress p (Suc k + i) n) = e"
    using Cons.prems(2)[of "Suc _"] by simp
  show ?case
  proof (cases "c \<in> set xs")
    case True
    then show ?thesis using Cons.IH[OF True tl] by simp
  next
    case False
    with Cons.prems(1) have "c = x" by simp
    with False Cons.prems(2)[of 0] show ?thesis by (simp add: liveAfter_notin)
  qed
qed


lemma update_update:
  "updateAssemblyProgress p (updateAssemblyProgress q s) = updateAssemblyProgress p s"
proof -
  let ?n = "length (components s)"
  let ?Lq = "liveAfter (interpolated s) q ?n 0 (components s) (object3d s)"
  have "liveAfter (interpolated s) p ?n 0 (components s) ?Lq
        = liveAfter (interpolated s) p ?n 0 (components s) (object3d s)"
    by (rule liveAfter_cong) (simp add: liveAfter_notin)
  then show ?thesis
    by (simp add: updateAssemblyProgress_eq interpolated_object3d_update)
qed

lemma update_after_sequence:
  "updateAssemblyProgress p (foldl (\<lambda>st q. updateAssemblyProgress q st) s qs)
     = updateAssemblyProgress p s"
proof (induction qs arbitrary: s)
  case Nil
  show ?case by simp
next
  case (Cons q qs)
  show ?case by (simp add: Cons.IH update_update)
qed

subsection \<open>The boundaries of the progress range\<close>



lemma componentProgress_at_least_one: "i < n \<Longrightarrow> 1 \<le> p \<Longrightarrow> componentProgress p i n = 1"
  using slotEnd_le_one[of i n] by (simp add: componentProgress_def)


lemma lerpVectors_1: "lerpVectors a b 1 = b"
  by (simp add: lerpVectors_def)



lemma update_live_const:
  "c \<in> set (components s) \<Longrightarrow>
   (\<And>i. i < length (components s) \<Longrightarrow>
      eased (componentProgress p i (length (components s))) = e) \<Longrightarrow>
   object3d (updateAssemblyProgress p s) c = interpolated s c e"
  by (simp add: updateAssemblyProgress_eq liveAfter_const)

lemma update_live_nth:
  "distinct (components s) \<Longrightarrow> i < length (components s) \<Longrightarrow>
   object3d (updateAssemblyProgress p s) (components s ! i)
     = interpolated s (components s ! i) (eased (componentProgress p i (length (components s))))"
  by (simp add: updateAssemblyProgress_eq liveAfter_nth)


lemma update_above_one:
  "1 \<le> p \<Longrightarrow> c \<in> set (components s) \<Longrightarrow>
   object3d (updateAssemblyProgress p s) c = interpolated s c 1"
proof (rule update_live_const)
  fix i assume "1 \<le> p" "i < length (components s)"
  then show "eased (componentProgress p i (length (components s))) = 1"
    by (simp add: componentProgress_at_least_one eased_def)
qed


lemma setFromEuler_zero: "setFromEuler (Euler 0 0 0) = Quaternion 0 0 0 1"
  by (simp add: setFromEuler_def)

lemma atan2_0_1: "atan2 0 1 = 0"
  by (simp add: atan2_def)


lemma setFromQuaternion_identity: "setFromQuaternion (Quaternion 0 0 0 1) = Euler 0 0 0"
  by (simp add: setFromQuaternion_def makeRotationFromQuaternion_def setFromRotationMatrix_def
      clamp_def atan2_0_1)

lemma liveAfter_member:
  "c \<in> set xs \<Longrightarrow> liveAfter pose p n k xs L1 c = liveAfter pose p n k xs L2 c"
proof (induction xs arbitrary: k L1 L2)
  case Nil
  then show ?case by simp
next
  case (Cons x xs)
  show ?case
  proof (cases "c \<in> set xs")
    case True
    then show ?thesis by (simp add: Cons.IH)
  next
    case False
    with Cons.prems have "c = x" by simp
    with False show ?thesis by (simp add: liveAfter_notin)
  qed
qed

lemma update_live_independent:
  "updateAssemblyProgress p (s\<lparr>object3d := L\<rparr>) =
     (updateAssemblyProgress p s)
       \<lparr>object3d := (\<lambda>c. if c \<in> set (components s)
                          then object3d (updateAssemblyProgress p s) c else L c)\<rparr>"
proof -
  let ?n = "length (components s)"
  have "liveAfter (interpolated s) p ?n 0 (components s) L c =
        (if c \<in> set (components s)
         then liveAfter (interpolated s) p ?n 0 (components s) (object3d s) c else L c)" for c
    using liveAfter_member[of c "components s"] by (simp add: liveAfter_notin)
  then have "liveAfter (interpolated s) p ?n 0 (components s) L =
        (\<lambda>c. if c \<in> set (components s)
         then liveAfter (interpolated s) p ?n 0 (components s) (object3d s) c else L c)"
    by (rule ext)
  then show ?thesis
    by (simp add: updateAssemblyProgress_eq interpolated_object3d_update cong: if_cong)
qed








lemma slerp_identity: "slerpQuaternions (Quaternion 0 0 0 1) (Quaternion 0 0 0 1) t = Quaternion 0 0 0 1"
  by (simp add: slerpQuaternions_def)

lemma lerpVectors_same: "lerpVectors a a t = a"
  by (simp add: lerpVectors_def)

lemma interpolated_no_records:
  "scatteredPositions s c = None \<Longrightarrow> scatteredRotations s c = None \<Longrightarrow>
   scatteredScales s c = None \<Longrightarrow>
   originalPositions s c = None \<Longrightarrow> originalRotations s c = None \<Longrightarrow>
   originalScales s c = None \<Longrightarrow>
   interpolated s c e =
     \<lparr> position = Vector3 0 0 0, rotation = Euler 0 0 0,
       scale = lerpVectors (Vector3 0.01 0.01 0.01) (Vector3 1 1 1) e \<rparr>"
  by (simp add: interpolated_def setFromEuler_zero slerp_identity setFromQuaternion_identity
      lerpVectors_same)



subsection \<open>frameModel, scatterComponents and processModel\<close>

lemma frameModel_camera:
  assumes "\<not> isEmpty (modelBounds s)"
  shows "camera (frameModel v s) =
     (camera s)
       \<lparr> cam_position :=
           Vector3 (vx (getCenter (modelBounds s)) - maxDimension (modelBounds s) * 2)
                   (vy (getCenter (modelBounds s)) + maxDimension (modelBounds s) * 2)
                   (vz (getCenter (modelBounds s)) + maxDimension (modelBounds s) * 2),
         cam_left := - ((maxDimension (modelBounds s) * 1.5) / 2) * aspectOf v / 2,
         cam_right := ((maxDimension (modelBounds s) * 1.5) / 2) * aspectOf v / 2,
         cam_top := ((maxDimension (modelBounds s) * 1.5) / 2) / 2,
         cam_bottom := - ((maxDimension (modelBounds s) * 1.5) / 2) / 2,
         cam_zoom := 1 \<rparr>"
  using assms by (simp add: frameModel_def Let_def)

lemma demo_bounds: "modelBounds demoState = Box (Vector3 (-2) (-1) (-1)) (Vector3 2 1 1)"
  by (simp add: demoState_def)

lemma demo_maxDimension: "maxDimension (modelBounds demoState) = 4"
  by (simp add: demo_bounds maxDimension_def getSize_def subv_def)

lemma demo_aspect: "aspectOf demoEnv = 4 / 3"
  by (simp add: demoEnv_def aspectOf_def)

lemma scatterComponent_other:
  assumes "index \<noteq> 0" and "c \<noteq> component"
  shows "\<exists>s'. scatterComponent rand pattern R n index component s = Inr s' \<and> untouched c s s'"
  using assms by (simp add: scatterComponent_def untouched_def Let_def split_beta)

lemma untouched_trans: "untouched c s s' \<Longrightarrow> untouched c s' s'' \<Longrightarrow> untouched c s s''"
  by (simp add: untouched_def)

lemma untouched_refl: "untouched c s s"
  by (simp add: untouched_def)

lemma scatter_rest:
  "k \<noteq> 0 \<Longrightarrow> c \<notin> set xs \<Longrightarrow>
   \<exists>s'. forEachThrowing (scatterComponent rand pattern R n) k xs s = Inr s' \<and> untouched c s s'"
proof (induction xs arbitrary: k s)
  case Nil
  show ?case by (simp add: untouched_refl)
next
  case (Cons x xs)
  from Cons.prems have "c \<noteq> x" and cx: "c \<notin> set xs" by auto
  with Cons.prems(1) obtain s1 where
    s1: "scatterComponent rand pattern R n k x s = Inr s1" "untouched c s s1"
    using scatterComponent_other by blast
  from Cons.IH[of "Suc k" s1] cx obtain s' where
    s': "forEachThrowing (scatterComponent rand pattern R n) (Suc k) xs s1 = Inr s'"
        "untouched c s1 s'"
    by auto
  from s1 s' show ?case by (auto intro: untouched_trans)
qed

lemma scatterComponent_first:
  assumes "originalPositions s c = Some tp" "originalRotations s c = Some tr"
    "originalScales s c = Some ts"
  shows "scatterComponent rand pattern R n 0 c s =
     Inr (s\<lparr> scatteredPositions := (scatteredPositions s)(c \<mapsto> tp),
             scatteredRotations := (scatteredRotations s)(c \<mapsto> tr),
             scatteredScales := (scatteredScales s)(c \<mapsto> ts) \<rparr>)"
  using assms by (simp add: scatterComponent_def)

lemma components_nil_update: "components s = [] \<Longrightarrow> s\<lparr> components := [] \<rparr> = s"
  by (cases s) simp

lemma scatterComponents_empty: "components s = [] \<Longrightarrow> scatterComponents rand pattern s = Inr s"
  by (simp add: scatterComponents_def)

lemma frameModel_empty: "isEmpty (modelBounds s) \<Longrightarrow> frameModel v s = s"
  by (simp add: frameModel_def)

lemma update_empty: "components s = [] \<Longrightarrow> updateAssemblyProgress p s = s"
  by (simp add: updateAssemblyProgress_def)

lemma processModel_no_mesh:
  assumes "components s = []" and "filter isMesh model = []"
  shows "processModel v rand now objectSize model s
           = Inr (startAnimation now (s\<lparr> modelBounds := EmptyBox \<rparr>))"
proof -
  have c: "candidates model = []" using assms(2) by (simp add: candidates_def)
  show ?thesis
    using assms(1)
    by (simp add: processModel_def c boundsOf_def Let_def frameModel_empty
        scatterComponents_empty components_nil_update)
qed

lemma sqrt3_small: "sqrt 3 < 1001 / 50"
  by (rule real_less_lsqrt) (simp_all add: power2_eq_square)

lemma far_candidates: "candidates farModel = farModel"
  by (simp add: candidates_def farModel_def tinyMesh_def MAX_COMPONENTS_def)

lemma far_bounds: "boundsOf farModel = Box (Vector3 0 0 0) (Vector3 1001 1 1)"
  by (simp add: boundsOf_def farModel_def tinyMesh_def)

lemma far_maxDimension: "maxDimension (Box (Vector3 0 0 0) (Vector3 1001 1 1)) = 1001"
  by (simp add: maxDimension_def getSize_def subv_def)

lemma far_center: "getCenter (Box (Vector3 0 0 0) (Vector3 1001 1 1)) = Vector3 (1001 / 2) (1 / 2) (1 / 2)"
  by (simp add: getCenter_def addv_def multiplyScalar_def)

lemma tiny_discarded: "addComponent center (1001 / 50) (tinyMesh x) s = s"
proof -
  have "distanceTo (Vector3 x 0 0) (Vector3 (x + 1) 1 1) = sqrt 3"
    by (simp add: distanceTo_def)
  then show ?thesis
    using sqrt3_small by (simp add: addComponent_def tinyMesh_def)
qed

lemma far_process:
  "processModel demoEnv (\<lambda>k. 1 / 2) 0 (\<lambda>a. 0) farModel (initialState 800 600) =
     Inr (startAnimation 0 (frameModel demoEnv ((initialState 800 600)
            \<lparr> modelBounds := Box (Vector3 (- (1001 / 2)) (- (1 / 2)) (- (1 / 2)))
                                 (Vector3 (1001 / 2) (1 / 2) (1 / 2)) \<rparr>)))"
proof -
  have a: "foldl (\<lambda>st mesh. addComponent center (1001 / 50) mesh st) s farModel = s" for center s
    by (simp add: farModel_def tiny_discarded)
  have c: "components (initialState 800 600) = []" by (simp add: initialState_def)
  have f: "components (frameModel v s) = components s" for v s
    by (simp add: frameModel_def Let_def)
  show ?thesis
    unfolding processModel_def far_candidates Let_def
    by (simp add: far_bounds far_maxDimension far_center a c f scatterComponents_empty
        addv_def multiplyScalar_def components_nil_update)
qed

















section \<open>The claims\<close>






text \<open>
  C3. \<^verbatim>\<open>updateAssemblyProgress(p)\<close> is idempotent and free of accumulation: calling it
  twice in a row, or after any sequence of calls with other progress values, gives
  the state that one call gives; and the live transform it leaves on each component
  does not depend on the live transforms \<open>L\<close> it found.
\<close>

theorem C3_idempotent:
  "updateAssemblyProgress p (updateAssemblyProgress p s) = updateAssemblyProgress p s \<and>
   updateAssemblyProgress p (foldl (\<lambda>st q. updateAssemblyProgress q st) s qs)
     = updateAssemblyProgress p s \<and>
   updateAssemblyProgress p (s\<lparr>object3d := L\<rparr>) =
     (updateAssemblyProgress p s)
       \<lparr>object3d := (\<lambda>c. if c \<in> set (components s)
                          then object3d (updateAssemblyProgress p s) c else L c)\<rparr>"
  by (simp only: update_update update_after_sequence update_live_independent[symmetric] simp_thms)



text \<open>
  C5. For every pattern name and random source, if the component at index 0 has its
  original transform recorded and is not again in the list, \<^verbatim>\<open>scatterComponents\<close>
  returns normally, the scattered position, rotation and scale of that component are
  its original ones, and its live transform is the one it had before.
\<close>

theorem C5_largest_stays:
  assumes "components s = c # rest" and "c \<notin> set rest"
    and "originalPositions s c = Some tp" and "originalRotations s c = Some tr"
    and "originalScales s c = Some ts"
  shows "\<exists>s'. scatterComponents rand pattern s = Inr s' \<and>
           scatteredPositions s' c = Some tp \<and> scatteredRotations s' c = Some tr \<and>
           scatteredScales s' c = Some ts \<and>
           originalPositions s' c = Some tp \<and> originalRotations s' c = Some tr \<and>
           originalScales s' c = Some ts \<and>
           object3d s' c = object3d s c"
proof -
  let ?R = "maxDimension (modelBounds s) * 10"
  let ?f = "scatterComponent rand pattern ?R (length (components s))"
  let ?s1 = "s\<lparr> scatteredPositions := (scatteredPositions s)(c \<mapsto> tp),
               scatteredRotations := (scatteredRotations s)(c \<mapsto> tr),
               scatteredScales := (scatteredScales s)(c \<mapsto> ts) \<rparr>"
  have first: "?f 0 c s = Inr ?s1"
    using assms(3-5) by (rule scatterComponent_first)
  obtain s' where s': "forEachThrowing ?f (Suc 0) rest ?s1 = Inr s'" "untouched c ?s1 s'"
    using scatter_rest[of "Suc 0" c rest rand pattern ?R "length (components s)" ?s1] assms(2)
    by auto
  have "scatterComponents rand pattern s = Inr s'"
    using first s'(1) assms(1) by (simp add: scatterComponents_def Let_def)
  moreover from s'(2) assms(3-5) have
    "scatteredPositions s' c = Some tp \<and> scatteredRotations s' c = Some tr \<and>
     scatteredScales s' c = Some ts \<and>
     originalPositions s' c = Some tp \<and> originalRotations s' c = Some tr \<and>
     originalScales s' c = Some ts \<and> object3d s' c = object3d s c"
    by (simp add: untouched_def)
  ultimately show ?thesis by blast
qed

text \<open>The witness: \<open>demoState\<close>, pattern sphere, every random number 0.5.\<close>

theorem C5_largest_stays_witness:
  "\<exists>s'. scatterComponents (\<lambda>k. 1 / 2) ''sphere'' demoState = Inr s' \<and>
     scatteredPositions s' 0 = Some (Vector3 0 0 0) \<and>
     scatteredRotations s' 0 = Some (Euler 0 0 0) \<and>
     scatteredScales s' 0 = Some (Vector3 1 1 1) \<and>
     originalPositions s' 0 = Some (Vector3 0 0 0) \<and>
     originalRotations s' 0 = Some (Euler 0 0 0) \<and>
     originalScales s' 0 = Some (Vector3 1 1 1) \<and>
     object3d s' 0 = object3d demoState 0"
proof -
  have h: "components demoState = 0 # [1, 2, 3]" "0 \<notin> set [1, 2, 3::nat]"
    "originalPositions demoState 0 = Some (Vector3 0 0 0)"
    "originalRotations demoState 0 = Some (Euler 0 0 0)"
    "originalScales demoState 0 = Some (Vector3 1 1 1)"
    by (simp_all add: demoState_def)
  show ?thesis by (rule C5_largest_stays[OF h])
qed

text \<open>
  C6, as amended. When the loaded model has no mesh and no component exists,
  \<^verbatim>\<open>scatterComponents\<close> changes nothing, \<^verbatim>\<open>frameModel\<close> changes nothing on the empty
  bounds, and \<^verbatim>\<open>processModel\<close> returns the state it found with empty bounds and the
  animation started: \<open>isAnimating\<close> is set, the camera, the controls' target and every
  object are as before, and a later \<^verbatim>\<open>updateAssemblyProgress\<close> changes nothing.
\<close>

theorem C6_empty_model:
  assumes "components s = []" and "filter isMesh model = []"
  shows "scatterComponents rand pattern s = Inr s \<and>
         frameModel v (s\<lparr> modelBounds := EmptyBox \<rparr>) = s\<lparr> modelBounds := EmptyBox \<rparr> \<and>
         processModel v rand now objectSize model s
           = Inr (startAnimation now (s\<lparr> modelBounds := EmptyBox \<rparr>)) \<and>
         isAnimating (startAnimation now (s\<lparr> modelBounds := EmptyBox \<rparr>)) \<and>
         components (startAnimation now (s\<lparr> modelBounds := EmptyBox \<rparr>)) = [] \<and>
         camera (startAnimation now (s\<lparr> modelBounds := EmptyBox \<rparr>)) = camera s \<and>
         controlsTarget (startAnimation now (s\<lparr> modelBounds := EmptyBox \<rparr>)) = controlsTarget s \<and>
         object3d (startAnimation now (s\<lparr> modelBounds := EmptyBox \<rparr>)) = object3d s \<and>
         updateAssemblyProgress p (startAnimation now (s\<lparr> modelBounds := EmptyBox \<rparr>))
           = startAnimation now (s\<lparr> modelBounds := EmptyBox \<rparr>)"
proof -
  have u: "updateAssemblyProgress p (startAnimation now (s\<lparr> modelBounds := EmptyBox \<rparr>))
           = startAnimation now (s\<lparr> modelBounds := EmptyBox \<rparr>)"
    by (rule update_empty) (simp add: startAnimation_def assms(1))
  show ?thesis
    unfolding u processModel_no_mesh[OF assms] scatterComponents_empty[OF assms(1)]
    by (simp add: frameModel_empty) (simp add: startAnimation_def assms(1))
qed

text \<open>The witness: the empty model loaded into the initial state.\<close>

theorem C6_empty_model_witness:
  "processModel demoEnv (\<lambda>k. 1 / 2) 0 (\<lambda>a. 0) [] (initialState 800 600)
     = Inr (startAnimation 0 ((initialState 800 600)\<lparr> modelBounds := EmptyBox \<rparr>)) \<and>
   isAnimating (startAnimation 0 ((initialState 800 600)\<lparr> modelBounds := EmptyBox \<rparr>))"
proof -
  have h: "components (initialState 800 600) = []" "filter isMesh ([] :: node list) = []"
    by (simp_all add: initialState_def)
  from C6_empty_model[OF h] show ?thesis by blast
qed

text \<open>
  C6 as stated fails twice. Two unit cubes 1000 apart are both below 2% of the model's
  largest dimension, so no component survives; the bounds, computed from all
  candidates, are not empty, so \<^verbatim>\<open>frameModel\<close> moves the camera's top from 20 to
  3003/8; and the animation is started. It is started for the empty model as well.
\<close>

theorem C6_animation_counterexample:
  "map_sum id components
     (processModel demoEnv (\<lambda>k. 1 / 2) 0 (\<lambda>a. 0) farModel (initialState 800 600)) = Inr [] \<and>
   map_sum id isAnimating
     (processModel demoEnv (\<lambda>k. 1 / 2) 0 (\<lambda>a. 0) farModel (initialState 800 600)) = Inr True \<and>
   map_sum id (\<lambda>s. cam_top (camera s))
     (processModel demoEnv (\<lambda>k. 1 / 2) 0 (\<lambda>a. 0) farModel (initialState 800 600))
     = Inr (3003 / 8) \<and>
   cam_top (camera (initialState 800 600)) = 20 \<and>
   map_sum id isAnimating
     (processModel demoEnv (\<lambda>k. 1 / 2) 0 (\<lambda>a. 0) [] (initialState 800 600)) = Inr True"
proof -
  have c: "components (initialState 800 600) = []" by (simp add: initialState_def)
  have e: "processModel demoEnv (\<lambda>k. 1 / 2) 0 (\<lambda>a. 0) [] (initialState 800 600)
           = Inr (startAnimation 0 ((initialState 800 600)\<lparr> modelBounds := EmptyBox \<rparr>))"
    by (rule processModel_no_mesh) (simp_all add: c)
  have m: "maxDimension (Box (Vector3 (- (1001 / 2)) (- (1 / 2)) (- (1 / 2)))
                                 (Vector3 (1001 / 2) (1 / 2) (1 / 2))) = 1001"
    by (simp add: maxDimension_def getSize_def subv_def)
  show ?thesis
    unfolding far_process e
    by (simp add: startAnimation_def frameModel_def Let_def m c) (simp add: initialState_def)
qed



text \<open>
  C8, as amended. For non-empty bounds \<^verbatim>\<open>frameModel\<close> sets \<^verbatim>\<open>camera.top\<close> to
  \<open>((maxDimension * 1.5) / 2) / 2\<close> and \<^verbatim>\<open>camera.bottom\<close> to its negation, so that
  \<open>(maxDimension * 1.5) / 2\<close> is the full height of the frustum; right and left are
  top and bottom times the aspect ratio (a container or window of non-zero height),
  and the zoom is 1.
\<close>

theorem C8_frustum:
  assumes "\<not> isEmpty (modelBounds s)" and "aspectDefined v"
  shows "cam_top (camera (frameModel v s)) = ((maxDimension (modelBounds s) * 1.5) / 2) / 2 \<and>
         cam_bottom (camera (frameModel v s)) = - cam_top (camera (frameModel v s)) \<and>
         cam_top (camera (frameModel v s)) - cam_bottom (camera (frameModel v s))
           = (maxDimension (modelBounds s) * 1.5) / 2 \<and>
         cam_right (camera (frameModel v s)) = cam_top (camera (frameModel v s)) * aspectOf v \<and>
         cam_left (camera (frameModel v s)) = - cam_right (camera (frameModel v s)) \<and>
         cam_zoom (camera (frameModel v s)) = 1"
  unfolding frameModel_camera[OF assms(1)] by simp

text \<open>The witness: bounds of largest dimension 4 in a container of 800 by 600.\<close>

theorem C8_frustum_witness:
  "cam_top (camera (frameModel demoEnv demoState)) = 3 / 2 \<and>
   cam_bottom (camera (frameModel demoEnv demoState)) = - (3 / 2) \<and>
   cam_right (camera (frameModel demoEnv demoState)) = 2 \<and>
   cam_left (camera (frameModel demoEnv demoState)) = - 2 \<and>
   cam_zoom (camera (frameModel demoEnv demoState)) = 1"
proof -
  have ne: "\<not> isEmpty (modelBounds demoState)" by (simp add: demo_bounds)
  have a: "aspectDefined demoEnv" by (simp add: aspectDefined_def demoEnv_def)
  from C8_frustum[OF ne a] show ?thesis
    by (simp add: demo_maxDimension demo_aspect)
qed

text \<open>
  C8 as stated fails: with largest dimension 4 the claim gives a half-height of 3,
  the program sets 3/2.
\<close>

theorem C8_half_height_counterexample:
  "maxDimension (modelBounds demoState) = 4 \<and>
   cam_top (camera (frameModel demoEnv demoState)) = 3 / 2 \<and>
   cam_top (camera (frameModel demoEnv demoState)) \<noteq> (4 * 1.5) / 2"
proof -
  have ne: "\<not> isEmpty (modelBounds demoState)" by (simp add: demo_bounds)
  have "cam_top (camera (frameModel demoEnv demoState)) = 3 / 2"
    unfolding frameModel_camera[OF ne] by (simp add: demo_maxDimension)
  then show ?thesis by (simp add: demo_maxDimension)
qed

text \<open>
  C9, as amended. \<^verbatim>\<open>updateAssemblyProgress\<close> has no failing path: for every component
  of the list (distinct objects) it writes a complete live transform, in which a
  missing record is replaced by the zero position, the zero rotation, the scale 0.01
  for a missing scattered scale and the unit scale for a missing original scale. A
  component with no record at all gets position 0, rotation 0 and a scale between 0.01
  and 1.
\<close>

theorem C9_missing_records:
  assumes "distinct (components s)" and "i < length (components s)"
    and "components s ! i = c"
  shows "object3d (updateAssemblyProgress p s) c =
           \<lparr> position =
               lerpVectors (orElse (scatteredPositions s c) (Vector3 0 0 0))
                 (orElse (originalPositions s c) (Vector3 0 0 0))
                 (eased (componentProgress p i (length (components s)))),
             rotation =
               setFromQuaternion
                 (slerpQuaternions
                    (setFromEuler (orElse (scatteredRotations s c) (Euler 0 0 0)))
                    (setFromEuler (orElse (originalRotations s c) (Euler 0 0 0)))
                    (eased (componentProgress p i (length (components s))))),
             scale =
               lerpVectors (orElse (scatteredScales s c) (Vector3 0.01 0.01 0.01))
                 (orElse (originalScales s c) (Vector3 1 1 1))
                 (eased (componentProgress p i (length (components s)))) \<rparr> \<and>
         (scatteredPositions s c = None \<and> scatteredRotations s c = None \<and>
          scatteredScales s c = None \<and> originalPositions s c = None \<and>
          originalRotations s c = None \<and> originalScales s c = None \<longrightarrow>
          object3d (updateAssemblyProgress p s) c =
            \<lparr> position = Vector3 0 0 0, rotation = Euler 0 0 0,
              scale = lerpVectors (Vector3 0.01 0.01 0.01) (Vector3 1 1 1)
                        (eased (componentProgress p i (length (components s)))) \<rparr>)"
proof -
  have l: "object3d (updateAssemblyProgress p s) c =
      interpolated s c (eased (componentProgress p i (length (components s))))"
    using update_live_nth[OF assms(1,2), of p] assms(3) by simp
  show ?thesis
    unfolding l by (simp add: interpolated_no_records) (simp add: interpolated_def)
qed

text \<open>The witness: object 4 of \<open>orphanState\<close>, which has no record.\<close>

theorem C9_missing_records_witness:
  "object3d (updateAssemblyProgress 1 orphanState) 4 =
     \<lparr> position = Vector3 0 0 0, rotation = Euler 0 0 0,
       scale = lerpVectors (Vector3 0.01 0.01 0.01) (Vector3 1 1 1)
                 (eased (componentProgress 1 4 5)) \<rparr>"
proof -
  have len: "length (components orphanState) = 5"
    by (simp add: orphanState_def)
  have h1: "distinct (components orphanState)" and h2: "4 < length (components orphanState)"
    and h3: "components orphanState ! 4 = 4"
    by (simp_all add: orphanState_def)
  have n: "scatteredPositions orphanState 4 = None \<and> scatteredRotations orphanState 4 = None \<and>
          scatteredScales orphanState 4 = None \<and> originalPositions orphanState 4 = None \<and>
          originalRotations orphanState 4 = None \<and> originalScales orphanState 4 = None"
    by (simp add: orphanState_def demoState_def)
  from C9_missing_records[OF h1 h2 h3, of 1] n show ?thesis
    unfolding len by blast
qed

text \<open>
  C9 as stated fails for a missing original scale: the fallback is the unit scale,
  not the minified one, so object 4 of \<open>orphanState\<close> has scale 1 at progress 1.
\<close>

theorem C9_scale_counterexample:
  "4 \<in> set (components orphanState) \<and> originalScales orphanState 4 = None \<and>
   scale (object3d (updateAssemblyProgress 1 orphanState) 4) = Vector3 1 1 1 \<and>
   scale (object3d (updateAssemblyProgress 1 orphanState) 4) \<noteq> Vector3 0.01 0.01 0.01"
proof -
  have c: "4 \<in> set (components orphanState)" by (simp add: orphanState_def)
  have n: "scatteredPositions orphanState 4 = None" "scatteredRotations orphanState 4 = None"
          "scatteredScales orphanState 4 = None" "originalPositions orphanState 4 = None"
          "originalRotations orphanState 4 = None" "originalScales orphanState 4 = None"
    by (simp_all add: orphanState_def demoState_def)
  have "object3d (updateAssemblyProgress 1 orphanState) 4 = interpolated orphanState 4 1"
    using c by (simp add: update_above_one)
  then have "scale (object3d (updateAssemblyProgress 1 orphanState) 4) = Vector3 1 1 1"
    by (simp add: interpolated_no_records[OF n] lerpVectors_1)
  with c n(6) show ?thesis by simp
qed



end
